theory Spec2Isabelle
  imports Complex_Main "HOL-Library.Word"
begin

section \<open>Values of the helper: bytes, exceptions, JSON data\<close>

type_synonym byte = "8 word"

text \<open>The exception classes that the code of \<^verbatim>\<open>helper.py\<close> can raise. \<open>StructError\<close> is
  \<^verbatim>\<open>struct.error\<close>; \<open>OtherException\<close> stands for any further subclass of \<^verbatim>\<open>Exception\<close> that a
  library call handed in as a parameter may raise.\<close>

datatype py_error =
    NameError | AttributeError | TypeError | IndexError | KeyError | ValueError
  | StructError | OverflowError | UnicodeEncodeError | JSONDecodeError | OSError
  | OtherException

text \<open>A Python \<^verbatim>\<open>float\<close> is an IEEE double: a signed dyadic number \<open>(-1)^s * m * 2^e\<close> with \<open>m \<ge> 0\<close>, an
  infinity, or the quiet NaN that \<^verbatim>\<open>json.loads\<close> yields for the token \<^verbatim>\<open>NaN\<close>.\<close>

datatype pyfloat = Finite bool int int | Infinity bool | NaN

text \<open>A Python \<^verbatim>\<open>str\<close> is a sequence of Unicode code points.\<close>

type_synonym ustr = "nat list"

definition ustr :: "string \<Rightarrow> ustr" where
  "ustr s = map of_char s"

text \<open>What \<^verbatim>\<open>json.loads\<close> returns: \<^verbatim>\<open>None\<close>, \<^verbatim>\<open>bool\<close>, \<^verbatim>\<open>int\<close> (unbounded), \<^verbatim>\<open>float\<close>, \<^verbatim>\<open>str\<close>,
  \<^verbatim>\<open>list\<close> and \<^verbatim>\<open>dict\<close> with string keys.\<close>

datatype json =
    JNull | JBool bool | JInt int | JFloat pyfloat | JStr ustr
  | JArr "json list" | JObj "(ustr \<times> json) list"

text \<open>Sequencing of statements that may raise: the first exception ends the block.\<close>

definition ebind :: "py_error + 'a \<Rightarrow> ('a \<Rightarrow> py_error + 'b) \<Rightarrow> py_error + 'b" where
  "ebind m f = (case m of Inl e \<Rightarrow> Inl e | Inr x \<Rightarrow> f x)"

text \<open>\<^verbatim>\<open>data.get(key, default)\<close> on a dict.\<close>

definition dict_get :: "(ustr \<times> json) list \<Rightarrow> string \<Rightarrow> json \<Rightarrow> json" where
  "dict_get kv k d = (case map_of kv (ustr k) of None \<Rightarrow> d | Some v \<Rightarrow> v)"

section \<open>The \<^verbatim>\<open>struct\<close> module: little-endian integers and IEEE single floats\<close>

definition le32 :: "32 word \<Rightarrow> byte list" where
  "le32 w = [ucast w, ucast (drop_bit 8 w), ucast (drop_bit 16 w), ucast (drop_bit 24 w)]"

definition from_le32 :: "byte list \<Rightarrow> int" where
  "from_le32 bs = uint (bs ! 0) + 256 * uint (bs ! 1) + 65536 * uint (bs ! 2)
     + 16777216 * uint (bs ! 3)"

text \<open>\<^verbatim>\<open>struct.pack('<I', v)\<close>: \<open>v\<close> must be an \<^verbatim>\<open>int\<close> (a \<^verbatim>\<open>bool\<close> is one) in \<open>0 .. 2^32 - 1\<close>.\<close>

fun pack_I :: "json \<Rightarrow> py_error + byte list" where
  "pack_I (JInt n) = (if 0 \<le> n \<and> n < 4294967296 then Inr (le32 (word_of_int n)) else Inl StructError)"
| "pack_I (JBool b) = Inr (le32 (if b then 1 else 0))"
| "pack_I _ = Inl StructError"

text \<open>The number of binary digits of a positive integer.\<close>

function bitlen :: "int \<Rightarrow> int" where
  "bitlen n = (if n \<le> 0 then 0 else 1 + bitlen (n div 2))"
  by pat_completeness auto
termination
  by (relation "measure nat") auto

declare bitlen.simps [simp del]

text \<open>\<open>m / 2^k\<close> rounded to the nearest integer, ties to even.\<close>

definition round_half_even :: "int \<Rightarrow> nat \<Rightarrow> int" where
  "round_half_even m k =
     (let q = m div 2 ^ k; r = m mod 2 ^ k
      in if 2 * r > 2 ^ k \<or> (2 * r = 2 ^ k \<and> odd q) then q + 1 else q)"

text \<open>Rounding \<open>m * 2^e\<close> (\<open>m > 0\<close>) to a binary format with \<open>p\<close> significant bits whose
  smallest quantum is \<open>2^qmin\<close>: the result \<open>(sig, q)\<close> stands for \<open>sig * 2^q\<close>.\<close>

definition round_binary :: "int \<Rightarrow> int \<Rightarrow> int \<Rightarrow> int \<Rightarrow> int \<times> int" where
  "round_binary p qmin m e =
     (let q = max (bitlen m + e - p) qmin
      in if q \<le> e then (m * 2 ^ nat (e - q), q) else (round_half_even m (nat (q - e)), q))"

text \<open>\<^verbatim>\<open>float(n)\<close> for an \<^verbatim>\<open>int\<close>: correctly rounded to a double, \<^verbatim>\<open>OverflowError\<close> beyond its range.\<close>

definition int_to_float :: "int \<Rightarrow> py_error + pyfloat" where
  "int_to_float n =
     (if n = 0 then Inr (Finite False 0 0)
      else let (sig, q) = round_binary 53 (- 1074) \<bar>n\<bar> 0
           in if bitlen sig + q > 1024 then Inl OverflowError
              else Inr (Finite (n < 0) sig q))"

text \<open>The C conversion of a double to a single, as the bit pattern of the single: sign bit,
  eight exponent bits, 23 fraction bits. \<^verbatim>\<open>OverflowError\<close> when a finite double rounds to
  an infinity.\<close>

definition sign_bit :: "bool \<Rightarrow> 32 word" where
  "sign_bit s = (if s then 2147483648 else 0)"

fun float32_bits :: "pyfloat \<Rightarrow> py_error + 32 word" where
  "float32_bits (Finite s m e) =
     (if m \<le> 0 then Inr (sign_bit s)
      else let (sig, q) = round_binary 24 (- 149) m e
           in if bitlen sig + q > 128 then Inl OverflowError
              else Inr (sign_bit s + word_of_int ((q + 149) * 8388608 + sig)))"
| "float32_bits (Infinity s) = Inr (sign_bit s + 2139095040)"
| "float32_bits NaN = Inr 2143289344"

text \<open>\<^verbatim>\<open>struct.pack('<f', v)\<close>: \<open>v\<close> is turned into a \<^verbatim>\<open>float\<close> (a failure there is reported as
  \<^verbatim>\<open>struct.error\<close>), then packed as a single; a \<^verbatim>\<open>float\<close> too large for a single raises
  \<^verbatim>\<open>OverflowError\<close>.\<close>

fun to_float :: "json \<Rightarrow> py_error + pyfloat" where
  "to_float (JFloat x) = Inr x"
| "to_float (JInt n) = (case int_to_float n of Inl _ \<Rightarrow> Inl StructError | Inr x \<Rightarrow> Inr x)"
| "to_float (JBool b) = Inr (Finite False (if b then 1 else 0) 0)"
| "to_float _ = Inl StructError"

text \<open>An \<^verbatim>\<open>int\<close> or a \<^verbatim>\<open>bool\<close>: the values for which \<^verbatim>\<open>struct\<close> reports an
  \<^verbatim>\<open>OverflowError\<close> of the packing as \<^verbatim>\<open>struct.error\<close> ("int too large to convert").\<close>

fun is_int :: "json \<Rightarrow> bool" where
  "is_int (JInt n) = True"
| "is_int (JBool b) = True"
| "is_int _ = False"

definition pack_f :: "json \<Rightarrow> py_error + byte list" where
  "pack_f v =
     ebind (to_float v) (\<lambda>x.
       case float32_bits x of
         Inl e \<Rightarrow> Inl (if is_int v then StructError else e)
       | Inr b \<Rightarrow> Inr (le32 b))"

section \<open>Python operations on the decoded message\<close>

text \<open>\<^verbatim>\<open>v[i]\<close> for an index \<open>i \<ge> 0\<close>. A list or a string raises \<^verbatim>\<open>IndexError\<close> out of range;
  a dict decoded from JSON has string keys only, so an integer key raises \<^verbatim>\<open>KeyError\<close>; the
  other values are not subscriptable.\<close>

fun getitem :: "json \<Rightarrow> nat \<Rightarrow> py_error + json" where
  "getitem (JArr xs) i = (if i < length xs then Inr (xs ! i) else Inl IndexError)"
| "getitem (JStr s) i = (if i < length s then Inr (JStr [s ! i]) else Inl IndexError)"
| "getitem (JObj kv) i = Inl KeyError"
| "getitem _ i = Inl TypeError"

text \<open>\<^verbatim>\<open>v[:n]\<close>. A dict rejects a slice as key (\<^verbatim>\<open>TypeError\<close> up to Python 3.11).\<close>

fun slice_to :: "json \<Rightarrow> nat \<Rightarrow> py_error + json" where
  "slice_to (JStr s) n = Inr (JStr (take n s))"
| "slice_to (JArr xs) n = Inr (JArr (take n xs))"
| "slice_to _ n = Inl TypeError"

text \<open>\<^verbatim>\<open>str.encode('utf-16le')\<close>: two bytes for a code point of the basic plane, a surrogate
  pair (four bytes) above it; a lone surrogate code point raises \<^verbatim>\<open>UnicodeEncodeError\<close>.\<close>

definition unit16 :: "nat \<Rightarrow> byte list" where
  "unit16 u = [of_nat u, of_nat (u div 256)]"

definition is_surrogate :: "nat \<Rightarrow> bool" where
  "is_surrogate c = (55296 \<le> c \<and> c \<le> 57343)"

definition utf16_units :: "nat \<Rightarrow> byte list" where
  "utf16_units c =
     (if c < 65536 then unit16 c
      else unit16 (55296 + (c - 65536) div 1024) @ unit16 (56320 + (c - 65536) mod 1024))"

fun utf16le :: "ustr \<Rightarrow> py_error + byte list" where
  "utf16le [] = Inr []"
| "utf16le (c # cs) =
     (if is_surrogate c then Inl UnicodeEncodeError
      else ebind (utf16le cs) (\<lambda>bs. Inr (utf16_units c @ bs)))"

text \<open>\<^verbatim>\<open>v.encode('utf-16le')\<close>: only a \<^verbatim>\<open>str\<close> has the method.\<close>

fun encode_utf16le :: "json \<Rightarrow> py_error + byte list" where
  "encode_utf16le (JStr s) = utf16le s"
| "encode_utf16le _ = Inl AttributeError"

text \<open>The two statements of a text field: \<^verbatim>\<open>t = v[:nchars]\<close> and
  \<^verbatim>\<open>t.encode('utf-16le')[:nbytes]\<close>.\<close>

definition text_bytes :: "json \<Rightarrow> nat \<Rightarrow> nat \<Rightarrow> py_error + byte list" where
  "text_bytes v nchars nbytes =
     ebind (slice_to v nchars) (\<lambda>t. ebind (encode_utf16le t) (\<lambda>w. Inr (take nbytes w)))"

text \<open>\<^verbatim>\<open>len(v)\<close> and the truth value of \<open>v\<close>.\<close>

fun py_len :: "json \<Rightarrow> py_error + nat" where
  "py_len (JArr xs) = Inr (length xs)"
| "py_len (JStr s) = Inr (length s)"
| "py_len (JObj kv) = Inr (length kv)"
| "py_len _ = Inl TypeError"

fun truthy :: "json \<Rightarrow> bool" where
  "truthy JNull = False"
| "truthy (JBool b) = b"
| "truthy (JInt n) = (n \<noteq> 0)"
| "truthy (JFloat (Finite s m e)) = (m \<noteq> 0)"
| "truthy (JFloat _) = True"
| "truthy (JStr s) = (s \<noteq> [])"
| "truthy (JArr xs) = (xs \<noteq> [])"
| "truthy (JObj kv) = (kv \<noteq> [])"

text \<open>\<^verbatim>\<open>bytes(xs)\<close> for a list: every element must be an \<^verbatim>\<open>int\<close> in \<open>0 .. 255\<close>.\<close>

fun byte_of :: "json \<Rightarrow> py_error + byte" where
  "byte_of (JInt n) = (if 0 \<le> n \<and> n < 256 then Inr (word_of_int n) else Inl ValueError)"
| "byte_of (JBool b) = Inr (if b then 1 else 0)"
| "byte_of _ = Inl TypeError"

fun bytes_of_list :: "json list \<Rightarrow> py_error + byte list" where
  "bytes_of_list [] = Inr []"
| "bytes_of_list (x # xs) =
     ebind (byte_of x) (\<lambda>b. ebind (bytes_of_list xs) (\<lambda>bs. Inr (b # bs)))"

text \<open>\<^verbatim>\<open>bytes(v)\<close> of a value that came out of \<^verbatim>\<open>v[:256]\<close>: a list or a string; a string
  without an encoding is a \<^verbatim>\<open>TypeError\<close>.\<close>

fun py_bytes :: "json \<Rightarrow> py_error + byte list" where
  "py_bytes (JArr xs) = bytes_of_list xs"
| "py_bytes _ = Inl TypeError"

section \<open>The local buffer \<^verbatim>\<open>binary_data\<close>\<close>

text \<open>\<^verbatim>\<open>struct.pack_into(fmt, buf, off, v)\<close> for a four-byte format: the buffer must hold
  four bytes at \<open>off\<close>; they are overwritten in place.\<close>

definition pack_into :: "(json \<Rightarrow> py_error + byte list) \<Rightarrow> byte list \<Rightarrow> nat \<Rightarrow> json
    \<Rightarrow> py_error + byte list" where
  "pack_into pk buf off v =
     (if off + 4 \<le> length buf
      then ebind (pk v) (\<lambda>bs. Inr (take off buf @ bs @ drop (off + 4) buf))
      else Inl StructError)"

text \<open>\<^verbatim>\<open>struct.unpack_from('<I', buf, off)[0]\<close>.\<close>

definition unpack_from_I :: "byte list \<Rightarrow> nat \<Rightarrow> py_error + int" where
  "unpack_from_I buf off =
     (if off + 4 \<le> length buf then Inr (from_le32 (take 4 (drop off buf))) else Inl StructError)"

text \<open>\<^verbatim>\<open>buf[off:off+len(bs)] = bs\<close> on a \<^verbatim>\<open>bytearray\<close>: the slice is clipped to the buffer,
  so bytes that do not fit are appended and the buffer grows.\<close>

definition slice_assign :: "byte list \<Rightarrow> nat \<Rightarrow> byte list \<Rightarrow> byte list" where
  "slice_assign buf off bs = take off buf @ bs @ drop (off + length bs) buf"

text \<open>\<^verbatim>\<open>range(n)\<close>.\<close>

definition py_range :: "nat \<Rightarrow> nat list" where
  "py_range n = [0..<n]"

text \<open>The loop \<^verbatim>\<open>for i in range(3): struct.pack_into('<f', binary_data, offset, v[i]); offset += 4\<close>,
  over the remaining indices.\<close>

fun pack_floats :: "json \<Rightarrow> nat list \<Rightarrow> byte list \<Rightarrow> nat \<Rightarrow> py_error + byte list \<times> nat" where
  "pack_floats v [] buf off = Inr (buf, off)"
| "pack_floats v (i # is) buf off =
     ebind (getitem v i) (\<lambda>x.
     ebind (pack_into pack_f buf off x) (\<lambda>buf'.
     pack_floats v is buf' (off + 4)))"

section \<open>Building the record: lines 110 to 186 of \<^verbatim>\<open>update_mumble_link\<close>\<close>

text \<open>The body of the \<^verbatim>\<open>try\<close> block up to the comment \<^verbatim>\<open># Write to memory\<close>, with the
  variable names of the source. The result is the local \<^verbatim>\<open>binary_data\<close>, or the first
  exception raised.\<close>

definition encode_record :: "json \<Rightarrow> py_error + byte list" where
  "encode_record data =
    (case data of
       JObj kv \<Rightarrow>
        (let binary_data = replicate 2048 (0 :: byte); offset = 0 in
         ebind (pack_into pack_I binary_data offset (dict_get kv ''uiVersion'' (JInt 4)))
           (\<lambda>binary_data.
         let offset = offset + 4 in
         ebind (unpack_from_I binary_data offset) (\<lambda>t.
         let tick = t + 1 in
         ebind (pack_into pack_I binary_data offset (JInt tick)) (\<lambda>binary_data.
         let offset = offset + 4;
             pos = dict_get kv ''fAvatarPosition'' (JArr [JInt 0, JInt 0, JInt 0]) in
         ebind (pack_floats pos (py_range 3) binary_data offset) (\<lambda>(binary_data, offset).
         let front = dict_get kv ''fAvatarFront'' (JArr [JInt 0, JInt 0, JInt 1]) in
         ebind (pack_floats front (py_range 3) binary_data offset) (\<lambda>(binary_data, offset).
         let top = dict_get kv ''fAvatarTop'' (JArr [JInt 0, JInt 1, JInt 0]) in
         ebind (pack_floats top (py_range 3) binary_data offset) (\<lambda>(binary_data, offset).
         ebind (text_bytes (dict_get kv ''name'' (JStr (ustr ''Foundry VTT User''))) 255 510)
           (\<lambda>name_wide.
         let binary_data = slice_assign binary_data offset name_wide;
             offset = offset + 512;
             cam_pos = dict_get kv ''fCameraPosition'' pos in
         ebind (pack_floats cam_pos (py_range 3) binary_data offset) (\<lambda>(binary_data, offset).
         let cam_front = dict_get kv ''fCameraFront'' front in
         ebind (pack_floats cam_front (py_range 3) binary_data offset) (\<lambda>(binary_data, offset).
         let cam_top = dict_get kv ''fCameraTop'' top in
         ebind (pack_floats cam_top (py_range 3) binary_data offset) (\<lambda>(binary_data, offset).
         ebind (text_bytes (dict_get kv ''identity'' (JStr (ustr ''{}''))) 255 510)
           (\<lambda>identity_wide.
         let binary_data = slice_assign binary_data offset identity_wide;
             offset = offset + 512;
             context = dict_get kv ''context'' (JArr []) in
         ebind (py_len context) (\<lambda>n.
         let context_len = min n 256 in
         ebind (pack_into pack_I binary_data offset (JInt (int context_len))) (\<lambda>binary_data.
         let offset = offset + 4 in
         ebind (if truthy context
                then ebind (slice_to context 256) (\<lambda>c.
                     ebind (py_bytes c) (\<lambda>context_bytes.
                     Inr (slice_assign binary_data offset context_bytes)))
                else Inr binary_data) (\<lambda>binary_data.
         let offset = offset + 256 in
         ebind (text_bytes (dict_get kv ''description'' (JStr (ustr ''Foundry VTT''))) 2047 4094)
           (\<lambda>desc_wide.
         Inr (slice_assign binary_data offset desc_wide)))))))))))))))))
     | _ \<Rightarrow> Inl AttributeError)"

section \<open>The record as a sequence of fields\<close>

text \<open>The bytes that the loop over \<^verbatim>\<open>range(3)\<close> produces for one vector, in the order in
  which the loop reads and packs the elements.\<close>

fun vec_bytes :: "json \<Rightarrow> nat list \<Rightarrow> py_error + byte list" where
  "vec_bytes v [] = Inr []"
| "vec_bytes v (i # is) =
     ebind (getitem v i) (\<lambda>x. ebind (pack_f x) (\<lambda>b. ebind (vec_bytes v is) (\<lambda>bs. Inr (b @ bs))))"

text \<open>The bytes copied into the context field by lines 178 to 180.\<close>

definition context_bytes :: "json \<Rightarrow> py_error + byte list" where
  "context_bytes context =
     (if truthy context then ebind (slice_to context 256) py_bytes else Inr [])"

text \<open>A field of \<open>n\<close> bytes holding \<open>bs\<close>: zeros after the data, nothing cut off.\<close>

definition pad :: "nat \<Rightarrow> byte list \<Rightarrow> byte list" where
  "pad n bs = bs @ replicate (n - length bs) 0"

text \<open>A buffer whose first bytes are \<open>pre\<close> and whose remaining \<open>n\<close> bytes are still zero.\<close>

definition blank :: "byte list \<Rightarrow> nat \<Rightarrow> byte list" where
  "blank pre n = pre @ replicate n 0"

text \<open>The record written down field by field, in the order of the layout table: what
  \<open>encode_record\<close> is shown to compute.\<close>

definition record_fields :: "json \<Rightarrow> py_error + byte list" where
  "record_fields data =
    (case data of
       JObj kv \<Rightarrow>
        (let pos = dict_get kv ''fAvatarPosition'' (JArr [JInt 0, JInt 0, JInt 0]);
             front = dict_get kv ''fAvatarFront'' (JArr [JInt 0, JInt 0, JInt 1]);
             top = dict_get kv ''fAvatarTop'' (JArr [JInt 0, JInt 1, JInt 0]);
             context = dict_get kv ''context'' (JArr []) in
         ebind (pack_I (dict_get kv ''uiVersion'' (JInt 4))) (\<lambda>version.
         ebind (vec_bytes pos (py_range 3)) (\<lambda>avatar_pos.
         ebind (vec_bytes front (py_range 3)) (\<lambda>avatar_front.
         ebind (vec_bytes top (py_range 3)) (\<lambda>avatar_top.
         ebind (text_bytes (dict_get kv ''name'' (JStr (ustr ''Foundry VTT User''))) 255 510)
           (\<lambda>name_wide.
         ebind (vec_bytes (dict_get kv ''fCameraPosition'' pos) (py_range 3)) (\<lambda>camera_pos.
         ebind (vec_bytes (dict_get kv ''fCameraFront'' front) (py_range 3)) (\<lambda>camera_front.
         ebind (vec_bytes (dict_get kv ''fCameraTop'' top) (py_range 3)) (\<lambda>camera_top.
         ebind (text_bytes (dict_get kv ''identity'' (JStr (ustr ''{}''))) 255 510)
           (\<lambda>identity_wide.
         ebind (py_len context) (\<lambda>n.
         ebind (context_bytes context) (\<lambda>ctx.
         ebind (text_bytes (dict_get kv ''description'' (JStr (ustr ''Foundry VTT''))) 2047 4094)
           (\<lambda>desc_wide.
         Inr (version @ le32 1 @ avatar_pos @ avatar_front @ avatar_top @ pad 512 name_wide
              @ camera_pos @ camera_front @ camera_top @ pad 512 identity_wide
              @ le32 (of_nat (min n 256)) @ pad 256 ctx @ pad 684 desc_wide))))))))))))))
     | _ \<Rightarrow> Inl AttributeError)"

text \<open>Reading a record back, as the consumer of the shared region does: a four-byte field
  at an offset, the value of a single float, a UTF-16LE text without its padding.\<close>

definition field_at :: "nat \<Rightarrow> nat \<Rightarrow> byte list \<Rightarrow> byte list" where
  "field_at off n r = take n (drop off r)"

definition tick_of :: "byte list \<Rightarrow> int" where
  "tick_of r = from_le32 (field_at 4 4 r)"

definition float32_value :: "int \<Rightarrow> real option" where
  "float32_value bits =
     (let ex = bits div 8388608 mod 256;
          fr = bits mod 8388608;
          mag = (if ex = 0 then of_int fr / 2 ^ 149
                 else if 150 \<le> ex then of_int (8388608 + fr) * 2 ^ nat (ex - 150)
                 else of_int (8388608 + fr) / 2 ^ nat (150 - ex))
      in if ex = 255 then None
         else if bits div 2147483648 = 1 then Some (- mag) else Some mag)"

definition floats_at :: "nat \<Rightarrow> byte list \<Rightarrow> real option list" where
  "floats_at off r =
     map (\<lambda>i. float32_value (from_le32 (field_at (off + 4 * i) 4 r))) [0, 1, 2]"

fun units_of :: "byte list \<Rightarrow> nat list" where
  "units_of (lo # hi # bs) = (unat lo + 256 * unat hi) # units_of bs"
| "units_of _ = []"

fun decode_units :: "nat list \<Rightarrow> ustr" where
  "decode_units (h # l # us) =
     (if 55296 \<le> h \<and> h < 56320 \<and> 56320 \<le> l \<and> l < 57344
      then (65536 + (h - 55296) * 1024 + (l - 56320)) # decode_units us
      else h # decode_units (l # us))"
| "decode_units us = us"

definition text_at :: "nat \<Rightarrow> nat \<Rightarrow> byte list \<Rightarrow> ustr" where
  "text_at off n r = takeWhile (\<lambda>c. c \<noteq> 0) (decode_units (units_of (field_at off n r)))"

section \<open>The helper object and its environment\<close>

text \<open>The names bound at module level of \<^verbatim>\<open>helper.py\<close>: its imports (lines 8 to 16),
  \<^verbatim>\<open>logger\<close>, the class and \<^verbatim>\<open>main\<close>. Reading any other global name that is not a builtin
  raises \<^verbatim>\<open>NameError\<close>. The \<^verbatim>\<open>import ctypes\<close> of line 46 binds a local name of
  \<^verbatim>\<open>initialize_mumble_link\<close> only.\<close>

definition module_globals :: "string list" where
  "module_globals = [''asyncio'', ''json'', ''mmap'', ''struct'', ''websockets'', ''logging'',
     ''Path'', ''sys'', ''platform'', ''logger'', ''MumbleLinkHelper'', ''main'']"

definition global_name :: "string \<Rightarrow> py_error + unit" where
  "global_name n = (if n \<in> set module_globals then Inr () else Inl NameError)"

text \<open>What the process leaves behind: calls of the logger (level and text; a value
  interpolated into the text is kept only for the platform name, an exception is kept as
  its class) and attempts to bind the listener.\<close>

datatype level = DEBUG | INFO | WARNING | ERROR

datatype event = Log level string | LogExc level string py_error | Bind

text \<open>The attribute \<^verbatim>\<open>self.mumble_memory\<close>: never assigned (\<^verbatim>\<open>__init__\<close> sets
  \<^verbatim>\<open>self.mumble_link\<close>, which nothing reads), the null pointer of a failed
  \<^verbatim>\<open>MapViewOfFile\<close>, or the mapped region with its contents.\<close>

datatype memory_attr = Unset | NullView | Mapped "byte list"

record helper =
  clients :: "nat set"
  link_name :: "string option"
  mumble_memory :: memory_attr

text \<open>The environment: \<^verbatim>\<open>platform.system()\<close>, \<^verbatim>\<open>os.getuid()\<close>, the named shared-memory
  objects that exist (with their contents), and whether the listener's port can be bound.\<close>

record world =
  system :: string
  uid :: nat
  objects :: "string \<rightharpoonup> byte list"
  port_free :: bool

text \<open>\<^verbatim>\<open>str(n)\<close> of a non-negative integer.\<close>

fun str_nat :: "nat \<Rightarrow> string" where
  "str_nat n =
     (if n < 10 then [''0123456789'' ! n] else str_nat (n div 10) @ [''0123456789'' ! (n mod 10)])"

declare str_nat.simps [simp del]

text \<open>\<^verbatim>\<open>_get_link_name\<close>, lines 28 to 39.\<close>

definition get_link_name :: "world \<Rightarrow> py_error + string option \<times> event list" where
  "get_link_name w =
     (if system w = ''Windows'' then Inr (Some ''MumbleLink'', [])
      else if system w = ''Linux'' then
        ebind (global_name ''os'') (\<lambda>_. Inr (Some (''/dev/shm/MumbleLink.'' @ str_nat (uid w)), []))
      else if system w = ''Darwin'' then
        ebind (global_name ''os'') (\<lambda>_. Inr (Some (''/tmp/MumbleLink.'' @ str_nat (uid w)), []))
      else Inr (None, [Log ERROR (''Unsupported platform: '' @ system w)]))"

text \<open>\<^verbatim>\<open>__init__\<close>, lines 23 to 26.\<close>

definition helper_init :: "world \<Rightarrow> py_error + helper \<times> event list" where
  "helper_init w =
     ebind (get_link_name w) (\<lambda>(n, ev).
       Inr (\<lparr>clients = {}, link_name = n, mumble_memory = Unset\<rparr>, ev))"

text \<open>\<^verbatim>\<open>initialize_mumble_link\<close>, lines 41 to 85. The body of its \<^verbatim>\<open>try\<close> first: the result
  \<^verbatim>\<open>True\<close> or \<^verbatim>\<open>False\<close> with the new attribute, or an exception. A mapping of 2048 bytes needs
  an object of at least that size; \<^verbatim>\<open>Path(None)\<close> raises \<^verbatim>\<open>TypeError\<close>.\<close>

definition not_found :: event where
  "not_found = Log WARNING
     ''Mumble Link not found. Make sure Mumble is running with Link plugin enabled.''"

definition initialize_body :: "world \<Rightarrow> helper \<Rightarrow> py_error + bool \<times> helper \<times> event list" where
  "initialize_body w h =
     (if system w = ''Windows'' then
        (case (case link_name h of None \<Rightarrow> None | Some n \<Rightarrow> objects w n) of
           None \<Rightarrow> Inr (False, h, [not_found])
         | Some contents \<Rightarrow>
             if length contents < 2048
             then Inr (False, h\<lparr>mumble_memory := NullView\<rparr>,
                       [Log ERROR ''Failed to map Mumble Link memory''])
             else Inr (True, h\<lparr>mumble_memory := Mapped (take 2048 contents)\<rparr>,
                       [Log INFO ''Successfully connected to Mumble Link'']))
      else
        (case link_name h of
           None \<Rightarrow> Inl TypeError
         | Some n \<Rightarrow>
            (case objects w n of
               None \<Rightarrow> Inr (False, h, [not_found])
             | Some contents \<Rightarrow>
                 if length contents < 2048 then Inl ValueError
                 else Inr (True, h\<lparr>mumble_memory := Mapped (take 2048 contents)\<rparr>,
                           [Log INFO ''Successfully connected to Mumble Link'']))))"

definition initialize_mumble_link :: "world \<Rightarrow> helper \<Rightarrow> bool \<times> helper \<times> event list" where
  "initialize_mumble_link w h =
     (case initialize_body w h of
        Inl e \<Rightarrow> (False, h, [LogExc ERROR ''Failed to initialize Mumble Link: '' e])
      | Inr r \<Rightarrow> r)"

text \<open>The write of lines 189 to 194 into a region with contents \<open>mem\<close>. On Windows the name
  \<^verbatim>\<open>ctypes\<close> is looked up as a global; elsewhere \<^verbatim>\<open>mmap.write\<close> at position 0 raises
  \<^verbatim>\<open>ValueError\<close> when the data is longer than the mapping.\<close>

definition write_memory :: "string \<Rightarrow> byte list \<Rightarrow> byte list \<Rightarrow> py_error + byte list" where
  "write_memory sys mem binary_data =
     (if sys = ''Windows''
      then ebind (global_name ''ctypes'')
             (\<lambda>_. Inr (binary_data @ drop (length binary_data) mem))
      else if length binary_data \<le> length mem
        then Inr (binary_data @ drop (length binary_data) mem)
        else Inl ValueError)"

text \<open>\<^verbatim>\<open>update_mumble_link\<close>, lines 87 to 197. Reading the attribute in line 89 is outside
  the \<^verbatim>\<open>try\<close>: an unset attribute raises \<^verbatim>\<open>AttributeError\<close> to the caller.\<close>

definition update_mumble_link :: "string \<Rightarrow> helper \<Rightarrow> json \<Rightarrow> py_error + helper \<times> event list" where
  "update_mumble_link sys h data =
     (case mumble_memory h of
        Unset \<Rightarrow> Inl AttributeError
      | NullView \<Rightarrow> Inr (h, [])
      | Mapped mem \<Rightarrow>
         (case ebind (encode_record data) (write_memory sys mem) of
            Inl e \<Rightarrow> Inr (h, [LogExc ERROR ''Failed to update Mumble Link: '' e])
          | Inr mem' \<Rightarrow> Inr (h\<lparr>mumble_memory := Mapped mem'\<rparr>, [])))"

text \<open>The body of the loop of \<^verbatim>\<open>handle_client\<close>, lines 206 to 214, for one message;
  \<^verbatim>\<open>json.loads\<close> is the parameter \<open>loads\<close>. The \<^verbatim>\<open>data.get\<close> of line 209 needs a dict.\<close>

definition on_message :: "('m \<Rightarrow> py_error + json) \<Rightarrow> string \<Rightarrow> helper \<Rightarrow> 'm \<Rightarrow> helper \<times> event list" where
  "on_message loads sys h message =
     (case loads message of
        Inl e \<Rightarrow>
          (h, [if e = JSONDecodeError then Log WARNING ''Invalid JSON received: ''
               else LogExc ERROR ''Error processing message: '' e])
      | Inr data \<Rightarrow>
         (case update_mumble_link sys h data of
            Inl e \<Rightarrow> (h, [LogExc ERROR ''Error processing message: '' e])
          | Inr (h', ev) \<Rightarrow>
             (case data of
                JObj kv \<Rightarrow> (h', ev @ [Log DEBUG ''Updated Mumble Link with: ''])
              | _ \<Rightarrow> (h', ev @ [LogExc ERROR ''Error processing message: '' AttributeError]))))"

text \<open>\<^verbatim>\<open>async for message in websocket\<close>: the messages that arrive before the connection
  closes, one after the other.\<close>

fun message_loop :: "('m \<Rightarrow> py_error + json) \<Rightarrow> string \<Rightarrow> helper \<Rightarrow> 'm list \<Rightarrow> helper \<times> event list" where
  "message_loop loads sys h [] = (h, [])"
| "message_loop loads sys h (m # ms) =
     (let (h', ev) = on_message loads sys h m;
          (h'', ev') = message_loop loads sys h' ms
      in (h'', ev @ ev'))"

text \<open>\<^verbatim>\<open>handle_client\<close>, lines 199 to 219, for the connection \<open>ws\<close>; \<open>closed_ok\<close> tells a
  normal closure from \<^verbatim>\<open>ConnectionClosed\<close> being raised.\<close>

definition handle_client :: "('m \<Rightarrow> py_error + json) \<Rightarrow> string \<Rightarrow> helper \<Rightarrow> nat \<Rightarrow> 'm list \<Rightarrow> bool
    \<Rightarrow> helper \<times> event list" where
  "handle_client loads sys h ws messages closed_ok =
     (let h1 = h\<lparr>clients := insert ws (clients h)\<rparr>;
          (h2, ev) = message_loop loads sys h1 messages
      in (h2\<lparr>clients := clients h2 - {ws}\<rparr>,
          [Log INFO ''New client connected: ''] @ ev
            @ (if closed_ok then [] else [Log INFO ''Client disconnected''])))"

text \<open>\<^verbatim>\<open>start_server\<close>, lines 221 to 231: it returns, raises, or serves until interrupted.\<close>

datatype server = Returned | Serving | Raised py_error

definition start_server :: "world \<Rightarrow> helper \<Rightarrow> server \<times> helper \<times> event list" where
  "start_server w h =
     (let (ok, h', ev) = initialize_mumble_link w h in
      if \<not> ok then (Returned, h', ev @ [Log ERROR ''Failed to connect to Mumble Link. Exiting.''])
      else if port_free w
        then (Serving, h', ev @ [Log INFO ''Starting Mumble Link Helper server on '', Bind,
               Log INFO ''Server started. Waiting for connections from Foundry VTT...''])
        else (Raised OSError, h', ev @ [Log INFO ''Starting Mumble Link Helper server on '', Bind]))"

text \<open>\<^verbatim>\<open>main\<close>, lines 233 to 255, after the arguments are parsed. The constructor runs outside
  the \<^verbatim>\<open>try\<close>: an exception there ends the process with a traceback and status 1. A return
  of \<^verbatim>\<open>start_server\<close> ends \<^verbatim>\<open>main\<close> normally, status 0.\<close>

datatype process = Exit nat | Running

definition main :: "world \<Rightarrow> process \<times> event list" where
  "main w =
     (case helper_init w of
        Inl e \<Rightarrow> (Exit 1, [])
      | Inr (h, ev) \<Rightarrow>
         (case start_server w h of
            (Returned, h', ev') \<Rightarrow> (Exit 0, ev @ ev')
          | (Serving, h', ev') \<Rightarrow> (Running, ev @ ev')
          | (Raised e, h', ev') \<Rightarrow> (Exit 1, ev @ ev' @ [LogExc ERROR ''Unexpected error: '' e])))"

section \<open>Inputs used in the statements below\<close>

text \<open>The keys of the six vectors of a message.\<close>

definition vector_keys :: "string list" where
  "vector_keys = [''fAvatarPosition'', ''fAvatarFront'', ''fAvatarTop'',
     ''fCameraPosition'', ''fCameraFront'', ''fCameraTop'']"

text \<open>The message \<^verbatim>\<open>{"name":"Alice","fAvatarPosition":[1,2,3]}\<close>.\<close>

definition alice_message :: json where
  "alice_message = JObj [(ustr ''name'', JStr (ustr ''Alice'')),
     (ustr ''fAvatarPosition'', JArr [JInt 1, JInt 2, JInt 3])]"

text \<open>A message whose description has 343 characters \<^verbatim>\<open>a\<close>.\<close>

definition long_description_message :: json where
  "long_description_message = JObj [(ustr ''description'', JStr (replicate 343 97))]"

text \<open>A helper whose region is open with contents \<open>mem\<close>, and the contents of the region
  of a helper.\<close>

definition open_helper :: "byte list \<Rightarrow> helper" where
  "open_helper mem = \<lparr>clients = {}, link_name = None, mumble_memory = Mapped mem\<rparr>"

definition region :: "helper \<Rightarrow> byte list" where
  "region h = (case mumble_memory h of Mapped mem \<Rightarrow> mem | _ \<Rightarrow> [])"

text \<open>An environment with no shared-memory object and a free port.\<close>

definition bare_world :: "string \<Rightarrow> nat \<Rightarrow> world" where
  "bare_world sys u = \<lparr>system = sys, uid = u, objects = Map.empty, port_free = True\<rparr>"

text \<open>A message is structurally invalid when \<^verbatim>\<open>json.loads\<close> raises on it or yields
  something other than a dict.\<close>

definition structurally_invalid :: "('m \<Rightarrow> py_error + json) \<Rightarrow> 'm \<Rightarrow> bool" where
  "structurally_invalid loads m =
     (case loads m of Inl e \<Rightarrow> True | Inr (JObj kv) \<Rightarrow> False | Inr _ \<Rightarrow> True)"

text \<open>A stand-in for \<^verbatim>\<open>json.loads\<close> that knows the empty object only.\<close>

definition loads_empty :: "string \<Rightarrow> py_error + json" where
  "loads_empty m = (if m = ''{}'' then Inr (JObj []) else Inl JSONDecodeError)"

text \<open>UTF-16LE of a text without lone surrogates.\<close>

definition utf16 :: "ustr \<Rightarrow> byte list" where
  "utf16 s = concat (map utf16_units s)"



text \<open>Windows with the mapping \<^verbatim>\<open>MumbleLink\<close> present, every byte of it 7.\<close>

definition windows_world :: world where
  "windows_world = \<lparr>system = ''Windows'', uid = 0,
     objects = [''MumbleLink'' \<mapsto> replicate 2048 7], port_free = True\<rparr>"

definition windows_helper :: helper where
  "windows_helper = \<lparr>clients = {}, link_name = Some ''MumbleLink'',
     mumble_memory = Mapped (replicate 2048 7)\<rparr>"

section \<open>Sequencing\<close>

lemma ebind_Inr [simp]: "ebind (Inr x) f = f x"
  by (simp add: ebind_def)

lemma ebind_Inl [simp]: "ebind (Inl e) f = Inl e"
  by (simp add: ebind_def)

lemma ebind_assoc: "ebind (ebind m f) g = ebind m (\<lambda>x. ebind (f x) g)"
  by (cases m) simp_all

lemma ebind_cong: "m = m' \<Longrightarrow> (\<And>x. m' = Inr x \<Longrightarrow> f x = g x) \<Longrightarrow> ebind m f = ebind m' g"
  by (cases m') simp_all

lemma ebind_eq_Inr: "ebind m f = Inr y \<longleftrightarrow> (\<exists>x. m = Inr x \<and> f x = Inr y)"
  by (cases m) simp_all

section \<open>Lengths of the packed pieces\<close>

lemma py_range_3: "py_range 3 = [0, 1, 2]"
  by (simp add: py_range_def upt_rec)

lemma length_le32 [simp]: "length (le32 w) = 4"
  by (simp add: le32_def)

lemma pack_I_length: "pack_I v = Inr bs \<Longrightarrow> length bs = 4"
  by (cases v) (auto split: if_splits)

lemma pack_f_length:
  assumes "pack_f v = Inr bs"
  shows "length bs = 4"
proof -
  from assms obtain x where x: "to_float v = Inr x"
    by (cases "to_float v") (simp_all add: pack_f_def)
  from assms x obtain b where "float32_bits x = Inr b" "bs = le32 b"
    by (cases "float32_bits x") (simp_all add: pack_f_def)
  then show ?thesis by simp
qed

lemma vec_bytes_length: "vec_bytes v is = Inr bs \<Longrightarrow> length bs = 4 * length is"
proof (induction "is" arbitrary: bs)
  case Nil
  then show ?case by simp
next
  case (Cons i "is")
  from Cons.prems obtain x b bs' where
    "pack_f x = Inr b" "vec_bytes v is = Inr bs'" "bs = b @ bs'"
    by (auto simp: ebind_eq_Inr)
  then show ?case
    using Cons.IH [of bs'] pack_f_length [of x b] by simp
qed

lemma vec_bytes_range3_length: "vec_bytes v (py_range 3) = Inr bs \<Longrightarrow> length bs = 12"
  by (drule vec_bytes_length) (simp add: py_range_def)

lemma text_bytes_length: "text_bytes v c b = Inr w \<Longrightarrow> length w \<le> b"
  by (auto simp: text_bytes_def ebind_eq_Inr)

lemma text_bytes_510: "text_bytes v c 510 = Inr w \<Longrightarrow> length w \<le> 512"
  by (drule text_bytes_length) simp

lemma bytes_of_list_length: "bytes_of_list xs = Inr bs \<Longrightarrow> length bs = length xs"
  by (induction xs arbitrary: bs) (auto simp: ebind_eq_Inr)

lemma context_bytes_length: "context_bytes c = Inr bs \<Longrightarrow> length bs \<le> 256"
proof (cases c)
  case (JArr xs)
  assume "context_bytes c = Inr bs"
  with JArr show ?thesis
    by (auto simp: context_bytes_def dest!: bytes_of_list_length split: if_splits)
qed (auto simp: context_bytes_def split: if_splits)

lemma min_256_range: "min (n::nat) 256 < 4294967296"
  by simp

lemma pad_length: "length bs \<le> k \<Longrightarrow> length (pad k bs) = k"
  by (simp add: pad_def)

section \<open>Steps on a buffer that is zero behind the cursor\<close>

lemma pack_into_blank:
  "length pre = off \<Longrightarrow> 4 \<le> n \<Longrightarrow>
   pack_into pk (blank pre n) off v = ebind (pk v) (\<lambda>bs. Inr (blank (pre @ bs) (n - 4)))"
  by (simp add: pack_into_def blank_def)

lemma unpack_blank:
  "length pre = off \<Longrightarrow> 4 \<le> n \<Longrightarrow> unpack_from_I (blank pre n) off = Inr 0"
  by (simp add: unpack_from_I_def blank_def from_le32_def)

lemma slice_assign_blank:
  "length pre = off \<Longrightarrow> length bs \<le> k \<Longrightarrow> k \<le> n \<Longrightarrow>
   slice_assign (blank pre n) off bs = blank (pre @ pad k bs) (n - k)"
  by (simp add: slice_assign_def blank_def pad_def flip: replicate_add)

lemma slice_assign_last:
  "length pre = off \<Longrightarrow> slice_assign (blank pre n) off bs = pre @ pad n bs"
  by (simp add: slice_assign_def blank_def pad_def)

lemma blank_skip: "k \<le> n \<Longrightarrow> blank pre n = blank (pre @ pad k []) (n - k)"
  by (simp add: blank_def pad_def flip: replicate_add)

lemma pack_floats_blank:
  "4 * length is \<le> n \<Longrightarrow>
   pack_floats v is (blank pre n) (length pre) =
     ebind (vec_bytes v is)
       (\<lambda>bs. Inr (blank (pre @ bs) (n - 4 * length is), length pre + 4 * length is))"
proof (induction "is" arbitrary: pre n)
  case Nil
  then show ?case by simp
next
  case (Cons i "is")
  show ?case
  proof (cases "getitem v i")
    case (Inl e)
    then show ?thesis by simp
  next
    case x: (Inr x)
    show ?thesis
    proof (cases "pack_f x")
      case (Inl e)
      then show ?thesis using x Cons.prems by (simp add: pack_into_blank)
    next
      case b: (Inr b)
      then have len: "length b = 4" by (rule pack_f_length)
      have n: "4 * length is \<le> n - 4" using Cons.prems by simp
      have "pack_floats v is (blank (pre @ b) (n - 4)) (length (pre @ b)) =
            ebind (vec_bytes v is)
             (\<lambda>bs. Inr (blank ((pre @ b) @ bs) (n - 4 - 4 * length is),
                length (pre @ b) + 4 * length is))"
        by (rule Cons.IH [OF n])
      then show ?thesis
        using x b len Cons.prems
        by (cases "vec_bytes v is") (simp_all add: pack_into_blank)
    qed
  qed
qed

lemma pack_floats_range3:
  "length pre = off \<Longrightarrow> 12 \<le> n \<Longrightarrow>
   pack_floats v (py_range 3) (blank pre n) off =
     ebind (vec_bytes v (py_range 3)) (\<lambda>bs. Inr (blank (pre @ bs) (n - 12), off + 12))"
  using pack_floats_blank [of "py_range 3" n v pre] by (auto simp: py_range_def)

lemma context_step:
  assumes "length pre = off" "256 \<le> n"
  shows "(if truthy c
          then ebind (slice_to c 256)
                 (\<lambda>s. ebind (py_bytes s) (\<lambda>cb. Inr (slice_assign (blank pre n) off cb)))
          else Inr (blank pre n))
         = ebind (context_bytes c) (\<lambda>cb. Inr (blank (pre @ pad 256 cb) (n - 256)))"
proof (cases "context_bytes c")
  case (Inl e)
  then show ?thesis
    by (auto simp: context_bytes_def ebind_def split: if_splits sum.splits)
next
  case (Inr cb)
  then have "length cb \<le> 256" by (rule context_bytes_length)
  then have "slice_assign (blank pre n) off cb = blank (pre @ pad 256 cb) (n - 256)"
    using assms by (simp add: slice_assign_blank)
  moreover have "blank pre n = blank (pre @ pad 256 []) (n - 256)"
    using assms by (simp add: blank_skip)
  ultimately show ?thesis
    using Inr by (auto simp: context_bytes_def ebind_eq_Inr split: if_splits)
qed

lemma blank_0: "replicate 2048 0 = blank [] 2048"
  by (simp add: blank_def)

section \<open>The encoder computes the record field by field\<close>

lemma encode_record_fields: "encode_record data = record_fields data"
proof (cases data)
  case (JObj kv)
  show ?thesis
    unfolding encode_record_def record_fields_def JObj json.case Let_def blank_0
    by (simp add: pack_into_blank unpack_blank pack_floats_range3 context_step
          slice_assign_blank [where k = 512] slice_assign_last [where n = 684]
          pack_I_length vec_bytes_range3_length text_bytes_510 pad_length min_256_range
          context_bytes_length ebind_assoc
        cong: ebind_cong)
qed (simp_all add: encode_record_def record_fields_def)

section \<open>The layout of a record that was built\<close>

lemma field_at_append:
  "length a = off \<Longrightarrow> length b = n \<Longrightarrow> field_at off n (a @ b @ c) = b"
  by (simp add: field_at_def)

lemma field_at_first: "length b = n \<Longrightarrow> field_at 0 n (b @ c) = b"
  by (simp add: field_at_def)

lemma drop_append_exact: "length a = off \<Longrightarrow> drop off (a @ b) = b"
  by simp

lemma record_layout:
  assumes "encode_record (JObj kv) = Inr r"
  obtains version p f t nm cp cf ct idt n ctx ds where
    "pack_I (dict_get kv ''uiVersion'' (JInt 4)) = Inr version"
    "vec_bytes (dict_get kv ''fAvatarPosition'' (JArr [JInt 0, JInt 0, JInt 0])) (py_range 3) = Inr p"
    "vec_bytes (dict_get kv ''fAvatarFront'' (JArr [JInt 0, JInt 0, JInt 1])) (py_range 3) = Inr f"
    "vec_bytes (dict_get kv ''fAvatarTop'' (JArr [JInt 0, JInt 1, JInt 0])) (py_range 3) = Inr t"
    "text_bytes (dict_get kv ''name'' (JStr (ustr ''Foundry VTT User''))) 255 510 = Inr nm"
    "vec_bytes (dict_get kv ''fCameraPosition''
       (dict_get kv ''fAvatarPosition'' (JArr [JInt 0, JInt 0, JInt 0]))) (py_range 3) = Inr cp"
    "vec_bytes (dict_get kv ''fCameraFront''
       (dict_get kv ''fAvatarFront'' (JArr [JInt 0, JInt 0, JInt 1]))) (py_range 3) = Inr cf"
    "vec_bytes (dict_get kv ''fCameraTop''
       (dict_get kv ''fAvatarTop'' (JArr [JInt 0, JInt 1, JInt 0]))) (py_range 3) = Inr ct"
    "text_bytes (dict_get kv ''identity'' (JStr (ustr ''{}''))) 255 510 = Inr idt"
    "py_len (dict_get kv ''context'' (JArr [])) = Inr n"
    "context_bytes (dict_get kv ''context'' (JArr [])) = Inr ctx"
    "text_bytes (dict_get kv ''description'' (JStr (ustr ''Foundry VTT''))) 2047 4094 = Inr ds"
    "r = version @ le32 1 @ p @ f @ t @ pad 512 nm @ cp @ cf @ ct @ pad 512 idt
        @ le32 (of_nat (min n 256)) @ pad 256 ctx @ pad 684 ds"
  using assms
  by (auto simp: encode_record_fields record_fields_def Let_def ebind_eq_Inr)

lemma record_fields_at:
  assumes "length version = 4" "length p = 12" "length f = 12" "length t = 12"
    "length nm \<le> 510" "length cp = 12" "length cf = 12" "length ct = 12"
    "length idt \<le> 510" "length ctx \<le> 256"
    and r: "r = version @ le32 1 @ p @ f @ t @ pad 512 nm @ cp @ cf @ ct @ pad 512 idt
        @ cl @ pad 256 ctx @ pad 684 ds" and "length cl = 4"
  shows "field_at 0 4 r = version" "field_at 4 4 r = le32 1" "field_at 8 12 r = p"
    "field_at 20 12 r = f" "field_at 32 12 r = t" "field_at 44 512 r = pad 512 nm"
    "field_at 556 12 r = cp" "field_at 568 12 r = cf" "field_at 580 12 r = ct"
    "field_at 592 512 r = pad 512 idt" "field_at 1104 4 r = cl"
    "field_at 1108 256 r = pad 256 ctx" "drop 1364 r = pad 684 ds"
    "length r = 1364 + max 684 (length ds)"
proof -
  note len = assms(1-10) \<open>length cl = 4\<close> pad_length
  show "field_at 0 4 r = version"
    unfolding r using len by (intro field_at_first) simp
  show "field_at 4 4 r = le32 1"
    unfolding r using len by (intro field_at_append) simp_all
  show "field_at 8 12 r = p"
    using field_at_append [of "version @ le32 1" 8 p 12] len by (simp add: r)
  show "field_at 20 12 r = f"
    using field_at_append [of "version @ le32 1 @ p" 20 f 12] len by (simp add: r)
  show "field_at 32 12 r = t"
    using field_at_append [of "version @ le32 1 @ p @ f" 32 t 12] len by (simp add: r)
  show "field_at 44 512 r = pad 512 nm"
    using field_at_append [of "version @ le32 1 @ p @ f @ t" 44 "pad 512 nm" 512] len
    by (simp add: r)
  show "field_at 556 12 r = cp"
    using field_at_append [of "version @ le32 1 @ p @ f @ t @ pad 512 nm" 556 cp 12] len
    by (simp add: r)
  show "field_at 568 12 r = cf"
    using field_at_append [of "version @ le32 1 @ p @ f @ t @ pad 512 nm @ cp" 568 cf 12] len
    by (simp add: r)
  show "field_at 580 12 r = ct"
    using field_at_append [of "version @ le32 1 @ p @ f @ t @ pad 512 nm @ cp @ cf" 580 ct 12]
      len by (simp add: r)
  show "field_at 592 512 r = pad 512 idt"
    using field_at_append [of "version @ le32 1 @ p @ f @ t @ pad 512 nm @ cp @ cf @ ct" 592
        "pad 512 idt" 512] len by (simp add: r)
  show "field_at 1104 4 r = cl"
    using field_at_append [of "version @ le32 1 @ p @ f @ t @ pad 512 nm @ cp @ cf @ ct
        @ pad 512 idt" 1104 cl 4] len by (simp add: r)
  show "field_at 1108 256 r = pad 256 ctx"
    using field_at_append [of "version @ le32 1 @ p @ f @ t @ pad 512 nm @ cp @ cf @ ct
        @ pad 512 idt @ cl" 1108 "pad 256 ctx" 256] len by (simp add: r)
  show "drop 1364 r = pad 684 ds"
    using drop_append_exact [of "version @ le32 1 @ p @ f @ t @ pad 512 nm @ cp @ cf @ ct
        @ pad 512 idt @ cl @ pad 256 ctx" 1364 "pad 684 ds"] len by (simp add: r)
  show "length r = 1364 + max 684 (length ds)"
    using len by (simp add: r) (simp add: pad_def)
qed

lemma record_built:
  assumes "encode_record (JObj kv) = Inr r"
  obtains version p f t nm cp cf ct idt n ctx ds where
    "pack_I (dict_get kv ''uiVersion'' (JInt 4)) = Inr version"
    "vec_bytes (dict_get kv ''fAvatarPosition'' (JArr [JInt 0, JInt 0, JInt 0])) (py_range 3) = Inr p"
    "vec_bytes (dict_get kv ''fAvatarFront'' (JArr [JInt 0, JInt 0, JInt 1])) (py_range 3) = Inr f"
    "vec_bytes (dict_get kv ''fAvatarTop'' (JArr [JInt 0, JInt 1, JInt 0])) (py_range 3) = Inr t"
    "text_bytes (dict_get kv ''name'' (JStr (ustr ''Foundry VTT User''))) 255 510 = Inr nm"
    "vec_bytes (dict_get kv ''fCameraPosition''
       (dict_get kv ''fAvatarPosition'' (JArr [JInt 0, JInt 0, JInt 0]))) (py_range 3) = Inr cp"
    "vec_bytes (dict_get kv ''fCameraFront''
       (dict_get kv ''fAvatarFront'' (JArr [JInt 0, JInt 0, JInt 1]))) (py_range 3) = Inr cf"
    "vec_bytes (dict_get kv ''fCameraTop''
       (dict_get kv ''fAvatarTop'' (JArr [JInt 0, JInt 1, JInt 0]))) (py_range 3) = Inr ct"
    "text_bytes (dict_get kv ''identity'' (JStr (ustr ''{}''))) 255 510 = Inr idt"
    "py_len (dict_get kv ''context'' (JArr [])) = Inr n"
    "context_bytes (dict_get kv ''context'' (JArr [])) = Inr ctx"
    "text_bytes (dict_get kv ''description'' (JStr (ustr ''Foundry VTT''))) 2047 4094 = Inr ds"
    "field_at 0 4 r = version" "field_at 4 4 r = le32 1" "field_at 8 12 r = p"
    "field_at 20 12 r = f" "field_at 32 12 r = t" "field_at 44 512 r = pad 512 nm"
    "field_at 556 12 r = cp" "field_at 568 12 r = cf" "field_at 580 12 r = ct"
    "field_at 592 512 r = pad 512 idt" "field_at 1104 4 r = le32 (of_nat (min n 256))"
    "field_at 1108 256 r = pad 256 ctx" "drop 1364 r = pad 684 ds"
    "length r = 1364 + max 684 (length ds)"
proof -
  from assms obtain version p f t nm cp cf ct idt n ctx ds where
    a: "pack_I (dict_get kv ''uiVersion'' (JInt 4)) = Inr version"
    "vec_bytes (dict_get kv ''fAvatarPosition'' (JArr [JInt 0, JInt 0, JInt 0])) (py_range 3) = Inr p"
    "vec_bytes (dict_get kv ''fAvatarFront'' (JArr [JInt 0, JInt 0, JInt 1])) (py_range 3) = Inr f"
    "vec_bytes (dict_get kv ''fAvatarTop'' (JArr [JInt 0, JInt 1, JInt 0])) (py_range 3) = Inr t"
    "text_bytes (dict_get kv ''name'' (JStr (ustr ''Foundry VTT User''))) 255 510 = Inr nm"
    "vec_bytes (dict_get kv ''fCameraPosition''
       (dict_get kv ''fAvatarPosition'' (JArr [JInt 0, JInt 0, JInt 0]))) (py_range 3) = Inr cp"
    "vec_bytes (dict_get kv ''fCameraFront''
       (dict_get kv ''fAvatarFront'' (JArr [JInt 0, JInt 0, JInt 1]))) (py_range 3) = Inr cf"
    "vec_bytes (dict_get kv ''fCameraTop''
       (dict_get kv ''fAvatarTop'' (JArr [JInt 0, JInt 1, JInt 0]))) (py_range 3) = Inr ct"
    "text_bytes (dict_get kv ''identity'' (JStr (ustr ''{}''))) 255 510 = Inr idt"
    "context_bytes (dict_get kv ''context'' (JArr [])) = Inr ctx"
    and b: "py_len (dict_get kv ''context'' (JArr [])) = Inr n"
    "text_bytes (dict_get kv ''description'' (JStr (ustr ''Foundry VTT''))) 2047 4094 = Inr ds"
    and r: "r = version @ le32 1 @ p @ f @ t @ pad 512 nm @ cp @ cf @ ct @ pad 512 idt
        @ le32 (of_nat (min n 256)) @ pad 256 ctx @ pad 684 ds"
    by (rule record_layout)
  note fields = record_fields_at [OF pack_I_length [OF a(1)] vec_bytes_range3_length [OF a(2)]
      vec_bytes_range3_length [OF a(3)] vec_bytes_range3_length [OF a(4)]
      text_bytes_length [OF a(5)] vec_bytes_range3_length [OF a(6)]
      vec_bytes_range3_length [OF a(7)] vec_bytes_range3_length [OF a(8)]
      text_bytes_length [OF a(9)] context_bytes_length [OF a(10)] r length_le32]
  show thesis
    by (rule that [OF a(1-9) b(1) a(10) b(2) fields])
qed

lemma from_le32_le32_1: "from_le32 (le32 1) = 1"
  by code_simp

lemma encode_record_JObj: "encode_record data = Inr r \<Longrightarrow> \<exists>kv. data = JObj kv"
  by (cases data) (simp_all add: encode_record_def)

lemma encode_record_tick:
  assumes "encode_record data = Inr r"
  shows "tick_of r = 1"
proof -
  from assms obtain kv where data: "data = JObj kv"
    by (auto dest: encode_record_JObj)
  from assms [unfolded data] have "field_at 4 4 r = le32 1"
    by (rule record_built)
  then show ?thesis by (simp add: tick_of_def from_le32_le32_1)
qed

lemma encode_record_length:
  assumes "encode_record (JObj kv) = Inr r"
    and "text_bytes (dict_get kv ''description'' (JStr (ustr ''Foundry VTT''))) 2047 4094 = Inr ds"
  shows "length r = 1364 + max 684 (length ds)"
  using assms(1) by (rule record_built) (use assms(2) in simp)

lemma record_fields_built:
  assumes "pack_I (dict_get kv ''uiVersion'' (JInt 4)) = Inr version"
    "vec_bytes (dict_get kv ''fAvatarPosition'' (JArr [JInt 0, JInt 0, JInt 0])) (py_range 3) = Inr p"
    "vec_bytes (dict_get kv ''fAvatarFront'' (JArr [JInt 0, JInt 0, JInt 1])) (py_range 3) = Inr f"
    "vec_bytes (dict_get kv ''fAvatarTop'' (JArr [JInt 0, JInt 1, JInt 0])) (py_range 3) = Inr t"
    "text_bytes (dict_get kv ''name'' (JStr (ustr ''Foundry VTT User''))) 255 510 = Inr nm"
    "vec_bytes (dict_get kv ''fCameraPosition''
       (dict_get kv ''fAvatarPosition'' (JArr [JInt 0, JInt 0, JInt 0]))) (py_range 3) = Inr cp"
    "vec_bytes (dict_get kv ''fCameraFront''
       (dict_get kv ''fAvatarFront'' (JArr [JInt 0, JInt 0, JInt 1]))) (py_range 3) = Inr cf"
    "vec_bytes (dict_get kv ''fCameraTop''
       (dict_get kv ''fAvatarTop'' (JArr [JInt 0, JInt 1, JInt 0]))) (py_range 3) = Inr ct"
    "text_bytes (dict_get kv ''identity'' (JStr (ustr ''{}''))) 255 510 = Inr idt"
    "py_len (dict_get kv ''context'' (JArr [])) = Inr n"
    "context_bytes (dict_get kv ''context'' (JArr [])) = Inr ctx"
    "text_bytes (dict_get kv ''description'' (JStr (ustr ''Foundry VTT''))) 2047 4094 = Inr ds"
  shows "encode_record (JObj kv) = Inr (version @ le32 1 @ p @ f @ t @ pad 512 nm @ cp @ cf @ ct
        @ pad 512 idt @ le32 (of_nat (min n 256)) @ pad 256 ctx @ pad 684 ds)"
  using assms by (simp add: encode_record_fields record_fields_def Let_def)

section \<open>Concrete pieces and the write\<close>

lemma pack_f_0: "pack_f (JInt 0) = Inr [0, 0, 0, 0]"
  by code_simp

lemma pack_f_1: "pack_f (JInt 1) = Inr [0, 0, 128, 63]"
  by code_simp

lemma pack_f_2: "pack_f (JInt 2) = Inr [0, 0, 0, 64]"
  by code_simp

lemma pack_f_3: "pack_f (JInt 3) = Inr [0, 0, 64, 64]"
  by code_simp

lemma le32_4: "le32 4 = [4, 0, 0, 0]"
  by code_simp

lemma le32_1: "le32 1 = [1, 0, 0, 0]"
  by code_simp

lemma vec_bytes_default_pos:
  "vec_bytes (JArr [JInt 0, JInt 0, JInt 0]) (py_range 3) = Inr [0, 0, 0, 0, 0, 0, 0, 0, 0, 0, 0, 0]"
  by (simp add: py_range_3 pack_f_0)

lemma vec_bytes_default_front:
  "vec_bytes (JArr [JInt 0, JInt 0, JInt 1]) (py_range 3) = Inr [0, 0, 0, 0, 0, 0, 0, 0, 0, 0, 128, 63]"
  by (simp add: py_range_3 pack_f_0 pack_f_1)

lemma vec_bytes_default_top:
  "vec_bytes (JArr [JInt 0, JInt 1, JInt 0]) (py_range 3) = Inr [0, 0, 0, 0, 0, 0, 128, 63, 0, 0, 0, 0]"
  by (simp add: py_range_3 pack_f_0 pack_f_1)

lemma utf16le_utf16: "\<forall>c\<in>set s. \<not> is_surrogate c \<Longrightarrow> utf16le s = Inr (utf16 s)"
  by (induction s) (simp_all add: utf16_def)

lemma text_bytes_str:
  "\<forall>c\<in>set (take n s). \<not> is_surrogate c \<Longrightarrow>
   text_bytes (JStr s) n b = Inr (take b (utf16 (take n s)))"
  by (simp add: text_bytes_def utf16le_utf16)

lemma length_utf16_bmp: "\<forall>c\<in>set s. c < 65536 \<Longrightarrow> length (utf16 s) = 2 * length s"
  by (induction s) (simp_all add: utf16_def utf16_units_def unit16_def)

lemma text_default_name:
  "text_bytes (JStr (ustr ''Foundry VTT User'')) 255 510 = Inr (utf16 (ustr ''Foundry VTT User''))"
  by (subst text_bytes_str) (simp_all add: ustr_def is_surrogate_def length_utf16_bmp)

lemma text_default_identity:
  "text_bytes (JStr (ustr ''{}'')) 255 510 = Inr (utf16 (ustr ''{}''))"
  by (subst text_bytes_str) (simp_all add: ustr_def is_surrogate_def length_utf16_bmp)

lemma text_default_description:
  "text_bytes (JStr (ustr ''Foundry VTT'')) 2047 4094 = Inr (utf16 (ustr ''Foundry VTT''))"
  by (subst text_bytes_str) (simp_all add: ustr_def is_surrogate_def length_utf16_bmp)

lemma context_default: "context_bytes (JArr []) = Inr []" "py_len (JArr []) = Inr 0"
  by (simp_all add: context_bytes_def)

lemmas defaults = vec_bytes_default_pos vec_bytes_default_front vec_bytes_default_top
  text_default_name text_default_identity text_default_description context_default

lemma dict_get_Nil: "dict_get [] k d = d"
  by (simp add: dict_get_def)

lemma encode_empty:
  "encode_record (JObj []) = Inr (le32 4 @ le32 1
     @ [0, 0, 0, 0, 0, 0, 0, 0, 0, 0, 0, 0] @ [0, 0, 0, 0, 0, 0, 0, 0, 0, 0, 128, 63]
     @ [0, 0, 0, 0, 0, 0, 128, 63, 0, 0, 0, 0] @ pad 512 (utf16 (ustr ''Foundry VTT User''))
     @ [0, 0, 0, 0, 0, 0, 0, 0, 0, 0, 0, 0] @ [0, 0, 0, 0, 0, 0, 0, 0, 0, 0, 128, 63]
     @ [0, 0, 0, 0, 0, 0, 128, 63, 0, 0, 0, 0] @ pad 512 (utf16 (ustr ''{}''))
     @ le32 (of_nat (min 0 256)) @ pad 256 [] @ pad 684 (utf16 (ustr ''Foundry VTT'')))"
  by (rule record_fields_built) (simp_all add: dict_get_Nil defaults)

lemma encode_empty_length:
  assumes "encode_record (JObj []) = Inr r"
  shows "length r = 2048"
proof -
  have "text_bytes (dict_get [] ''description'' (JStr (ustr ''Foundry VTT''))) 2047 4094
      = Inr (utf16 (ustr ''Foundry VTT''))"
    by (simp add: dict_get_Nil defaults)
  from encode_record_length [OF assms this] show ?thesis
    by (simp add: length_utf16_bmp ustr_def)
qed

lemma update_writes:
  assumes "encode_record data = Inr r" "length r = 2048" "sys \<noteq> ''Windows''"
    "mumble_memory h = Mapped mem" "length mem = 2048"
  shows "update_mumble_link sys h data = Inr (h\<lparr>mumble_memory := Mapped r\<rparr>, [])"
  using assms by (simp add: update_mumble_link_def write_memory_def)

lemma long_description_bytes:
  "text_bytes (JStr (replicate 343 97)) 2047 4094 = Inr (utf16 (replicate 343 97))"
  by (subst text_bytes_str) (simp_all add: is_surrogate_def length_utf16_bmp)

lemma ustr_eq_iff: "ustr a = ustr b \<longleftrightarrow> a = b"
  by (simp add: ustr_def inj_on_def)

lemma dict_get_single:
  "dict_get [(ustr k', v)] k d = (if k = k' then v else d)"
  by (simp add: dict_get_def ustr_eq_iff)

lemma encode_long_description:
  "encode_record long_description_message = Inr (le32 4 @ le32 1
     @ [0, 0, 0, 0, 0, 0, 0, 0, 0, 0, 0, 0] @ [0, 0, 0, 0, 0, 0, 0, 0, 0, 0, 128, 63]
     @ [0, 0, 0, 0, 0, 0, 128, 63, 0, 0, 0, 0] @ pad 512 (utf16 (ustr ''Foundry VTT User''))
     @ [0, 0, 0, 0, 0, 0, 0, 0, 0, 0, 0, 0] @ [0, 0, 0, 0, 0, 0, 0, 0, 0, 0, 128, 63]
     @ [0, 0, 0, 0, 0, 0, 128, 63, 0, 0, 0, 0] @ pad 512 (utf16 (ustr ''{}''))
     @ le32 (of_nat (min 0 256)) @ pad 256 [] @ pad 684 (utf16 (replicate 343 97)))"
  unfolding long_description_message_def
  by (rule record_fields_built)
     (simp_all add: dict_get_single defaults long_description_bytes)

section \<open>Deriving the name of the backing resource\<close>

lemma get_link_name_Windows:
  "system w = ''Windows'' \<Longrightarrow> get_link_name w = Inr (Some ''MumbleLink'', [])"
  by (simp add: get_link_name_def)

lemma global_name_os: "global_name ''os'' = Inl NameError"
  by (simp add: global_name_def module_globals_def)

lemma global_name_ctypes: "global_name ''ctypes'' = Inl NameError"
  by (simp add: global_name_def module_globals_def)

text \<open>Claim C3. The name of the backing resource is to be \<^verbatim>\<open>/dev/shm/MumbleLink.<uid>\<close> on
  Linux and \<^verbatim>\<open>/tmp/MumbleLink.<uid>\<close> on macOS, derived without raising. The code calls
  \<^verbatim>\<open>os.getuid()\<close> in both branches, but the module never imports \<^verbatim>\<open>os\<close>: for the platform
  name \<^verbatim>\<open>Linux\<close> and user id 1000 the derivation raises \<^verbatim>\<open>NameError\<close>.\<close>

theorem get_link_name_Linux_raises:
  "get_link_name (bare_world ''Linux'' 1000) = Inl NameError"
  by (simp add: get_link_name_def bare_world_def global_name_os)

section \<open>Startup\<close>

text \<open>Claim C4, as the code has it. On a platform name other than \<^verbatim>\<open>Windows\<close>, \<^verbatim>\<open>Linux\<close> and
  \<^verbatim>\<open>Darwin\<close> the process logs the unsupported platform, fails to initialise the link
  (\<^verbatim>\<open>Path(None)\<close> raises inside the \<^verbatim>\<open>try\<close>), logs that it exits, never binds the listener,
  and ends with exit status 0.\<close>

theorem unsupported_platform_exits_zero:
  assumes "system w \<noteq> ''Windows''" "system w \<noteq> ''Linux''" "system w \<noteq> ''Darwin''"
  shows "main w = (Exit 0,
           [Log ERROR (''Unsupported platform: '' @ system w),
            LogExc ERROR ''Failed to initialize Mumble Link: '' TypeError,
            Log ERROR ''Failed to connect to Mumble Link. Exiting.''])
         \<and> Bind \<notin> set (snd (main w))"
  using assms
  by (simp add: main_def helper_init_def get_link_name_def start_server_def
      initialize_mumble_link_def initialize_body_def)

text \<open>The statement above at the platform name \<^verbatim>\<open>SunOS\<close>.\<close>

theorem unsupported_platform_exits_zero_witness:
  "system (bare_world ''SunOS'' 0) \<noteq> ''Windows''
   \<and> system (bare_world ''SunOS'' 0) \<noteq> ''Linux''
   \<and> system (bare_world ''SunOS'' 0) \<noteq> ''Darwin''
   \<and> main (bare_world ''SunOS'' 0) = (Exit 0,
           [Log ERROR ''Unsupported platform: SunOS'',
            LogExc ERROR ''Failed to initialize Mumble Link: '' TypeError,
            Log ERROR ''Failed to connect to Mumble Link. Exiting.''])
   \<and> Bind \<notin> set (snd (main (bare_world ''SunOS'' 0)))"
  using unsupported_platform_exits_zero [of "bare_world ''SunOS'' 0"]
  by (simp add: bare_world_def)

text \<open>Claim C4 as the specification states it asks for a non-zero exit status. On the
  platform name \<^verbatim>\<open>FreeBSD\<close> the exit status is 0.\<close>

theorem unsupported_platform_nonzero_exit_counterexample:
  "fst (main (bare_world ''FreeBSD'' 1000)) = Exit 0"
  by (simp add: main_def helper_init_def get_link_name_def bare_world_def start_server_def
      initialize_mumble_link_def initialize_body_def)

text \<open>Claim C5, as the code has it. When the shared-memory object named by the helper does
  not exist, \<^verbatim>\<open>start_server\<close> logs the warning, logs that it exits and returns, leaving the
  helper as it was and binding nothing; on Windows, where the constructor succeeds, the
  process then ends with exit status 0.\<close>

theorem missing_resource_server_returns:
  "(link_name h = Some n \<and> objects w n = None \<longrightarrow>
      start_server w h =
        (Returned, h, [not_found, Log ERROR ''Failed to connect to Mumble Link. Exiting.'']))
   \<and> (system w = ''Windows'' \<and> objects w ''MumbleLink'' = None \<longrightarrow>
      main w = (Exit 0, [not_found, Log ERROR ''Failed to connect to Mumble Link. Exiting.'']))"
  by (simp add: main_def helper_init_def get_link_name_def start_server_def
      initialize_mumble_link_def initialize_body_def)

text \<open>The statement above for a helper named \<^verbatim>\<open>MumbleLink\<close> on Windows with no
  shared-memory object.\<close>

theorem missing_resource_server_returns_witness:
  "link_name \<lparr>clients = {}, link_name = Some ''MumbleLink'', mumble_memory = Unset\<rparr>
     = Some ''MumbleLink''
   \<and> objects (bare_world ''Windows'' 0) ''MumbleLink'' = None
   \<and> system (bare_world ''Windows'' 0) = ''Windows''
   \<and> start_server (bare_world ''Windows'' 0)
        \<lparr>clients = {}, link_name = Some ''MumbleLink'', mumble_memory = Unset\<rparr>
      = (Returned, \<lparr>clients = {}, link_name = Some ''MumbleLink'', mumble_memory = Unset\<rparr>,
         [not_found, Log ERROR ''Failed to connect to Mumble Link. Exiting.''])
   \<and> main (bare_world ''Windows'' 0)
      = (Exit 0, [not_found, Log ERROR ''Failed to connect to Mumble Link. Exiting.''])"
  using missing_resource_server_returns
    [of "\<lparr>clients = {}, link_name = Some ''MumbleLink'', mumble_memory = Unset\<rparr>"
        "''MumbleLink''" "bare_world ''Windows'' 0"]
  by (simp add: bare_world_def)

text \<open>Claim C5 as the specification states it has the process keep running in a no-op mode.
  On Windows with no shared-memory object the process exits instead.\<close>

theorem missing_resource_keeps_running_counterexample:
  "fst (main (bare_world ''Windows'' 1000)) = Exit 0 \<and>
   fst (main (bare_world ''Windows'' 1000)) \<noteq> Running"
  by (simp add: main_def helper_init_def get_link_name_def bare_world_def start_server_def
      initialize_mumble_link_def initialize_body_def)

section \<open>Updates\<close>

text \<open>Claim C10. The record is assembled in the local buffer and the region is written only
  after that: when building the record raises, on a helper whose region is open, the update
  returns normally, the helper and with it the contents of the region are unchanged, and the
  exception is logged.\<close>

theorem failed_encoding_leaves_region:
  assumes "encode_record data = Inl e" "mumble_memory h = Mapped mem"
  shows "update_mumble_link sys h data
            = Inr (h, [LogExc ERROR ''Failed to update Mumble Link: '' e])
         \<and> map_sum id (\<lambda>(h', ev). region h') (update_mumble_link sys h data) = Inr mem"
  using assms by (simp add: update_mumble_link_def region_def)

lemma encode_nonnumeric:
  "encode_record (JObj [(ustr ''fAvatarPosition'', JArr [JStr (ustr ''x''), JInt 0, JInt 0])])
     = Inl StructError"
  by (simp add: encode_record_fields record_fields_def dict_get_def ustr_def py_range_3 Let_def
      pack_f_def)

text \<open>The statement above for the message \<^verbatim>\<open>{"fAvatarPosition":["x",0,0]}\<close>, whose first
  vector element is not a number, and a region filled with the byte 7.\<close>

theorem failed_encoding_leaves_region_witness:
  "encode_record (JObj [(ustr ''fAvatarPosition'', JArr [JStr (ustr ''x''), JInt 0, JInt 0])])
     = Inl StructError
   \<and> mumble_memory (open_helper (replicate 2048 7)) = Mapped (replicate 2048 7)
   \<and> update_mumble_link ''Linux'' (open_helper (replicate 2048 7))
        (JObj [(ustr ''fAvatarPosition'', JArr [JStr (ustr ''x''), JInt 0, JInt 0])])
      = Inr (open_helper (replicate 2048 7),
             [LogExc ERROR ''Failed to update Mumble Link: '' StructError])
   \<and> map_sum id (\<lambda>(h', ev). region h')
        (update_mumble_link ''Linux'' (open_helper (replicate 2048 7))
          (JObj [(ustr ''fAvatarPosition'', JArr [JStr (ustr ''x''), JInt 0, JInt 0])]))
      = Inr (replicate 2048 7)"
  using failed_encoding_leaves_region [OF encode_nonnumeric,
      of "open_helper (replicate 2048 7)" "replicate 2048 7" "''Linux''"]
  by (simp add: encode_nonnumeric open_helper_def region_def)

lemma update_Windows_never_writes:
  assumes "mumble_memory h = Mapped mem"
  shows "map_sum id fst (update_mumble_link ''Windows'' h data) = Inr h"
  using assms
  by (cases "encode_record data")
     (simp_all add: update_mumble_link_def write_memory_def global_name_ctypes)

text \<open>Claim C1. The tick of the new record is to be the tick of the previous record plus
  one. The code reads the tick from the fresh local buffer, which is zero, not from the
  region: on a region whose record has tick 7, an update writes tick 1, not 8.\<close>

theorem tick_not_incremented:
  "tick_of (le32 4 @ le32 7 @ replicate 2040 0) = 7
   \<and> map_sum id (\<lambda>(h, ev). tick_of (region h))
        (update_mumble_link ''Linux'' (open_helper (le32 4 @ le32 7 @ replicate 2040 0)) (JObj []))
      = Inr 1"
proof -
  obtain r where r: "encode_record (JObj []) = Inr r"
    using encode_empty by blast
  have "update_mumble_link ''Linux'' (open_helper (le32 4 @ le32 7 @ replicate 2040 0)) (JObj [])
      = Inr ((open_helper (le32 4 @ le32 7 @ replicate 2040 0))\<lparr>mumble_memory := Mapped r\<rparr>, [])"
    by (rule update_writes [OF r encode_empty_length [OF r],
          where mem = "le32 4 @ le32 7 @ replicate 2040 0"]) (simp_all add: open_helper_def)
  moreover have "tick_of r = 1"
    using r by (rule encode_record_tick)
  moreover have "tick_of (le32 4 @ le32 7 @ replicate 2040 0) = 7"
    by (simp add: tick_of_def field_at_def) code_simp
  ultimately show ?thesis
    by (simp add: region_def)
qed

text \<open>Claim C2. The record is to be exactly 2048 bytes whatever the lengths of the text
  fields. The description is assigned at offset 1364 of a 2048-byte buffer with up to 4094
  bytes: for a description of 343 characters (686 bytes) the slice assignment grows the
  buffer to 2050 bytes, and the write into the 2048-byte mapping then raises
  \<^verbatim>\<open>ValueError\<close>, so that the region keeps its old contents.\<close>

theorem long_description_record_too_long:
  "map_sum id length (encode_record long_description_message) = Inr 2050
   \<and> update_mumble_link ''Linux'' (open_helper (replicate 2048 0)) long_description_message
      = Inr (open_helper (replicate 2048 0),
             [LogExc ERROR ''Failed to update Mumble Link: '' ValueError])"
proof -
  obtain r where r: "encode_record long_description_message = Inr r"
    using encode_long_description by blast
  have "text_bytes (dict_get [(ustr ''description'', JStr (replicate 343 97))] ''description''
          (JStr (ustr ''Foundry VTT''))) 2047 4094 = Inr (utf16 (replicate 343 97))"
    by (simp add: dict_get_single long_description_bytes)
  from encode_record_length [OF r [unfolded long_description_message_def] this]
  have len: "length r = 2050"
    by (simp add: length_utf16_bmp)
  then show ?thesis
    using r by (simp add: update_mumble_link_def write_memory_def open_helper_def)
qed

section \<open>Vectors with fewer than three elements\<close>

lemma short_list: "length xs < 3 \<Longrightarrow> xs = [] \<or> (\<exists>a. xs = [a]) \<or> (\<exists>a b. xs = [a, b])"
  by (cases xs; simp) (metis length_0_conv length_Suc_conv less_Suc0 less_Suc_eq numeral_2_eq_2)

lemma vec_bytes_short: "length xs < 3 \<Longrightarrow> vec_bytes (JArr xs) (py_range 3) \<noteq> Inr bs"
  by (drule short_list) (auto simp: py_range_3 ebind_eq_Inr)

lemma dict_get_present: "map_of kv (ustr k) = Some v \<Longrightarrow> dict_get kv k d = v"
  by (simp add: dict_get_def)

lemma dict_get_absent: "map_of kv (ustr k) = None \<Longrightarrow> dict_get kv k d = d"
  by (simp add: dict_get_def)

lemma short_vector_not_encoded:
  assumes "k \<in> set vector_keys" "map_of kv (ustr k) = Some (JArr xs)" "length xs < 3"
  shows "encode_record (JObj kv) \<noteq> Inr r"
proof
  assume "encode_record (JObj kv) = Inr r"
  then show False
  proof (rule record_built)
    fix p f t cp cf ct
    assume "vec_bytes (dict_get kv ''fAvatarPosition'' (JArr [JInt 0, JInt 0, JInt 0])) (py_range 3) = Inr p"
      "vec_bytes (dict_get kv ''fAvatarFront'' (JArr [JInt 0, JInt 0, JInt 1])) (py_range 3) = Inr f"
      "vec_bytes (dict_get kv ''fAvatarTop'' (JArr [JInt 0, JInt 1, JInt 0])) (py_range 3) = Inr t"
      "vec_bytes (dict_get kv ''fCameraPosition''
         (dict_get kv ''fAvatarPosition'' (JArr [JInt 0, JInt 0, JInt 0]))) (py_range 3) = Inr cp"
      "vec_bytes (dict_get kv ''fCameraFront''
         (dict_get kv ''fAvatarFront'' (JArr [JInt 0, JInt 0, JInt 1]))) (py_range 3) = Inr cf"
      "vec_bytes (dict_get kv ''fCameraTop''
         (dict_get kv ''fAvatarTop'' (JArr [JInt 0, JInt 1, JInt 0]))) (py_range 3) = Inr ct"
    with assms show False
      by (auto simp: vector_keys_def dict_get_present vec_bytes_short)
  qed
qed

lemma encode_short_camera:
  "encode_record (JObj [(ustr ''fCameraTop'', JArr [JInt 1])]) = Inl IndexError"
  by (simp add: encode_record_fields record_fields_def dict_get_single py_range_3 Let_def
      pack_f_0 pack_f_1 le32_4 defaults)

text \<open>Claim C6, as the code has it. A message in which one of the six vector keys holds a
  list of fewer than three elements is not encoded: building the record raises (the loop
  reads the missing element), the update logs that exception and returns, and the helper
  with its region is unchanged. Nothing is zero-filled.\<close>

theorem short_vector_rejected:
  assumes "k \<in> set vector_keys" "map_of kv (ustr k) = Some (JArr xs)" "length xs < 3"
    and "mumble_memory h = Mapped mem"
  shows "isl (encode_record (JObj kv))
    \<and> update_mumble_link sys h (JObj kv)
        = Inr (h, [LogExc ERROR ''Failed to update Mumble Link: ''
                    (projl (encode_record (JObj kv)))])"
proof -
  have "isl (encode_record (JObj kv))"
    using short_vector_not_encoded [OF assms(1-3)] by (cases "encode_record (JObj kv)") auto
  then show ?thesis
    using assms(4) by (cases "encode_record (JObj kv)") (simp_all add: update_mumble_link_def)
qed

text \<open>The statement above for the message \<^verbatim>\<open>{"fCameraTop":[1]}\<close>, where the exception is
  \<^verbatim>\<open>IndexError\<close>.\<close>

theorem short_vector_rejected_witness:
  "''fCameraTop'' \<in> set vector_keys
   \<and> map_of [(ustr ''fCameraTop'', JArr [JInt 1])] (ustr ''fCameraTop'') = Some (JArr [JInt 1])
   \<and> length [JInt 1] < 3
   \<and> mumble_memory (open_helper (replicate 2048 0)) = Mapped (replicate 2048 0)
   \<and> isl (encode_record (JObj [(ustr ''fCameraTop'', JArr [JInt 1])]))
   \<and> update_mumble_link ''Linux'' (open_helper (replicate 2048 0))
        (JObj [(ustr ''fCameraTop'', JArr [JInt 1])])
      = Inr (open_helper (replicate 2048 0),
             [LogExc ERROR ''Failed to update Mumble Link: '' IndexError])"
  using short_vector_rejected [of "''fCameraTop''" "[(ustr ''fCameraTop'', JArr [JInt 1])]"
      "[JInt 1]" "open_helper (replicate 2048 0)" "replicate 2048 0" "''Linux''"]
  by (simp add: vector_keys_def encode_short_camera open_helper_def)

text \<open>Claim C6 as the specification states it has the missing elements encoded as zero. For
  \<^verbatim>\<open>{"fAvatarPosition":[1,2]}\<close> building the record raises \<^verbatim>\<open>IndexError\<close> instead.\<close>

theorem short_vector_zero_filled_counterexample:
  "encode_record (JObj [(ustr ''fAvatarPosition'', JArr [JInt 1, JInt 2])]) = Inl IndexError"
  by (simp add: encode_record_fields record_fields_def dict_get_single py_range_3 Let_def
      pack_f_1 pack_f_2 le32_4)

section \<open>Camera vectors default to the avatar vectors\<close>

lemma field_at_sub:
  assumes "off' + n' \<le> n"
  shows "field_at (off + off') n' r = field_at off' n' (field_at off n r)"
proof -
  have "take n' (drop off' (take n (drop off r))) = take n' (take (n - off') (drop off' (drop off r)))"
    by (simp only: drop_take)
  also have "\<dots> = take n' (drop (off + off') r)"
    using assms by (simp add: min_absorb1 add.commute)
  finally show ?thesis
    by (simp add: field_at_def)
qed


lemma floats_at_field: "floats_at off r = floats_at 0 (field_at off 12 r)"
proof -
  have "field_at (off + 0) 4 r = field_at 0 4 (field_at off 12 r)"
    "field_at (off + 4) 4 r = field_at 4 4 (field_at off 12 r)"
    "field_at (off + 8) 4 r = field_at 8 4 (field_at off 12 r)"
    by (rule field_at_sub, simp)+
  then show ?thesis
    by (simp add: floats_at_def)
qed

lemma float32_values:
  "float32_value (from_le32 [0, 0, 128, 63]) = Some 1"
  "float32_value (from_le32 [0, 0, 0, 64]) = Some 2"
  "float32_value (from_le32 [0, 0, 64, 64]) = Some 3"
  by (simp_all add: float32_value_def from_le32_def)

lemma fields_123:
  "field_at 0 4 [0, 0, 128, 63, 0, 0, 0, 64, 0, 0, 64, 64 :: byte] = [0, 0, 128, 63]"
  "field_at 4 4 [0, 0, 128, 63, 0, 0, 0, 64, 0, 0, 64, 64 :: byte] = [0, 0, 0, 64]"
  "field_at 8 4 [0, 0, 128, 63, 0, 0, 0, 64, 0, 0, 64, 64 :: byte] = [0, 0, 64, 64]"
  by (simp_all add: field_at_def)

lemma floats_123:
  "floats_at 0 [0, 0, 128, 63, 0, 0, 0, 64, 0, 0, 64, 64] = [Some 1, Some 2, Some 3]"
  by (simp add: floats_at_def fields_123 float32_values)


lemma vec_bytes_123:
  "vec_bytes (JArr [JInt 1, JInt 2, JInt 3]) (py_range 3) = Inr [0, 0, 128, 63, 0, 0, 0, 64, 0, 0, 64, 64]"
  by (simp add: py_range_3 pack_f_1 pack_f_2 pack_f_3)

lemma ustr_alice: "ustr ''Alice'' = [65, 108, 105, 99, 101]"
  by (simp add: ustr_def)

lemma utf16_alice: "utf16 (ustr ''Alice'') = [65, 0, 108, 0, 105, 0, 99, 0, 101, 0]"
  by (simp add: utf16_def ustr_alice utf16_units_def unit16_def)

lemma text_alice: "text_bytes (JStr (ustr ''Alice'')) 255 510 = Inr (utf16 (ustr ''Alice''))"
  by (subst text_bytes_str) (simp_all add: ustr_alice is_surrogate_def length_utf16_bmp)

lemma units_of_zeros: "units_of (replicate (2 * k) 0) = replicate k 0"
  by (induction k) simp_all

lemma decode_units_low: "h < 55296 \<Longrightarrow> decode_units (h # us) = h # decode_units us"
  by (cases us) simp_all

lemma text_at_alice:
  assumes "field_at 44 512 r = pad 512 (utf16 (ustr ''Alice''))"
  shows "text_at 44 512 r = ustr ''Alice''"
proof -
  have u: "units_of (replicate 502 0) = replicate 251 0"
    using units_of_zeros [of 251] by simp
  have z: "replicate 251 (0::nat) = 0 # replicate 250 0"
    using replicate_Suc [of 250 "0::nat"] by simp
  have "units_of (pad 512 (utf16 (ustr ''Alice''))) = [65, 108, 105, 99, 101] @ replicate 251 0"
    by (simp add: pad_def utf16_alice u)
  then show ?thesis
    by (simp add: text_at_def assms ustr_alice decode_units_low z)
qed


lemma encode_alice:
  "encode_record alice_message = Inr (le32 4 @ le32 1
     @ [0, 0, 128, 63, 0, 0, 0, 64, 0, 0, 64, 64] @ [0, 0, 0, 0, 0, 0, 0, 0, 0, 0, 128, 63]
     @ [0, 0, 0, 0, 0, 0, 128, 63, 0, 0, 0, 0] @ pad 512 (utf16 (ustr ''Alice''))
     @ [0, 0, 128, 63, 0, 0, 0, 64, 0, 0, 64, 64] @ [0, 0, 0, 0, 0, 0, 0, 0, 0, 0, 128, 63]
     @ [0, 0, 0, 0, 0, 0, 128, 63, 0, 0, 0, 0] @ pad 512 (utf16 (ustr ''{}''))
     @ le32 (of_nat (min 0 256)) @ pad 256 [] @ pad 684 (utf16 (ustr ''Foundry VTT'')))"
  unfolding alice_message_def
  by (rule record_fields_built)
     (simp_all add: dict_get_def ustr_eq_iff defaults vec_bytes_123 text_alice)

lemma camera_fields_default:
  assumes "map_of kv (ustr ''fCameraPosition'') = None" "map_of kv (ustr ''fCameraFront'') = None"
    "map_of kv (ustr ''fCameraTop'') = None" "encode_record (JObj kv) = Inr r"
  shows "field_at 556 12 r = field_at 8 12 r \<and> field_at 568 12 r = field_at 20 12 r
    \<and> field_at 580 12 r = field_at 32 12 r"
  using assms(4) by (rule record_built) (use assms(1-3) in \<open>simp add: dict_get_absent\<close>)

text \<open>Claim C8. For a message without the keys \<^verbatim>\<open>fCameraPosition\<close>, \<^verbatim>\<open>fCameraFront\<close> and
  \<^verbatim>\<open>fCameraTop\<close>, the twelve bytes of each camera vector (offsets 556, 568, 580) of the
  record built equal the twelve bytes of the avatar vector (offsets 8, 20, 32). For
  \<^verbatim>\<open>{"name":"Alice","fAvatarPosition":[1,2,3]}\<close> the record is built, the floats at offsets 8
  and 556 decode to 1, 2, 3 and the text at offset 44 decodes to \<^verbatim>\<open>Alice\<close>.\<close>

theorem camera_defaults_to_avatar:
  "(map_of kv (ustr ''fCameraPosition'') = None \<and> map_of kv (ustr ''fCameraFront'') = None
      \<and> map_of kv (ustr ''fCameraTop'') = None \<and> encode_record (JObj kv) = Inr r
    \<longrightarrow> field_at 556 12 r = field_at 8 12 r \<and> field_at 568 12 r = field_at 20 12 r
      \<and> field_at 580 12 r = field_at 32 12 r)
   \<and> map_sum id (\<lambda>r. (floats_at 8 r, floats_at 556 r, text_at 44 512 r))
        (encode_record alice_message)
      = Inr ([Some 1, Some 2, Some 3], [Some 1, Some 2, Some 3], ustr ''Alice'')"
proof -
  obtain a where a: "encode_record alice_message = Inr a"
    using encode_alice by blast
  from a [unfolded alice_message_def] have
    "field_at 8 12 a = [0, 0, 128, 63, 0, 0, 0, 64, 0, 0, 64, 64]
     \<and> field_at 556 12 a = [0, 0, 128, 63, 0, 0, 0, 64, 0, 0, 64, 64]
     \<and> field_at 44 512 a = pad 512 (utf16 (ustr ''Alice''))"
    by (rule record_built)
       (simp add: dict_get_def ustr_eq_iff vec_bytes_123 text_alice)
  then have "floats_at 8 a = [Some 1, Some 2, Some 3]" "floats_at 556 a = [Some 1, Some 2, Some 3]"
    "text_at 44 512 a = ustr ''Alice''"
    by (simp_all add: floats_at_field [of 8] floats_at_field [of 556] floats_123 text_at_alice)
  with a camera_fields_default [of kv r] show ?thesis
    by simp
qed

text \<open>The general part of the statement above at the message of the scenario.\<close>

theorem camera_defaults_to_avatar_witness:
  "\<exists>r. map_of [(ustr ''name'', JStr (ustr ''Alice'')),
            (ustr ''fAvatarPosition'', JArr [JInt 1, JInt 2, JInt 3])] (ustr ''fCameraPosition'') = None
     \<and> map_of [(ustr ''name'', JStr (ustr ''Alice'')),
            (ustr ''fAvatarPosition'', JArr [JInt 1, JInt 2, JInt 3])] (ustr ''fCameraFront'') = None
     \<and> map_of [(ustr ''name'', JStr (ustr ''Alice'')),
            (ustr ''fAvatarPosition'', JArr [JInt 1, JInt 2, JInt 3])] (ustr ''fCameraTop'') = None
     \<and> encode_record (JObj [(ustr ''name'', JStr (ustr ''Alice'')),
            (ustr ''fAvatarPosition'', JArr [JInt 1, JInt 2, JInt 3])]) = Inr r
     \<and> field_at 556 12 r = field_at 8 12 r \<and> field_at 568 12 r = field_at 20 12 r
     \<and> field_at 580 12 r = field_at 32 12 r"
proof -
  obtain a where a: "encode_record (JObj [(ustr ''name'', JStr (ustr ''Alice'')),
            (ustr ''fAvatarPosition'', JArr [JInt 1, JInt 2, JInt 3])]) = Inr a"
    using encode_alice [unfolded alice_message_def] by blast
  with camera_defaults_to_avatar [of "[(ustr ''name'', JStr (ustr ''Alice'')),
            (ustr ''fAvatarPosition'', JArr [JInt 1, JInt 2, JInt 3])]" a]
  show ?thesis
    by (simp add: ustr_eq_iff)
qed

section \<open>Messages on a connection\<close>

lemma on_message_invalid:
  assumes "structurally_invalid loads m"
  shows "fst (on_message loads sys h m) = h \<and> snd (on_message loads sys h m) \<noteq> []"
proof (cases "loads m")
  case (Inl e)
  then show ?thesis by (simp add: on_message_def)
next
  case (Inr data)
  with assms have nd: "\<forall>kv. data \<noteq> JObj kv"
    by (auto simp: structurally_invalid_def)
  then have enc: "encode_record data = Inl AttributeError"
    by (cases data) (simp_all add: encode_record_def)
  show ?thesis
    using Inr nd enc
    by (cases "mumble_memory h"; cases data)
       (simp_all add: on_message_def update_mumble_link_def)
qed

lemma message_loop_skips_invalid:
  assumes "structurally_invalid loads bad"
  shows "message_loop loads sys h (bad # ms)
        = (fst (message_loop loads sys h ms),
           snd (on_message loads sys h bad) @ snd (message_loop loads sys h ms))"
  using on_message_invalid [OF assms, of sys h]
  by (cases "on_message loads sys h bad") (simp add: split_beta)

lemma update_Windows_empty:
  "update_mumble_link ''Windows'' windows_helper (JObj [])
     = Inr (windows_helper, [LogExc ERROR ''Failed to update Mumble Link: '' NameError])"
  by (simp add: update_mumble_link_def windows_helper_def encode_empty write_memory_def
      global_name_ctypes)

text \<open>Claim C9. After a structurally invalid message, a well-formed message on the same
  connection is to be processed and written. The invalid message is skipped and the next one
  is processed, but on Windows, the one platform on which the helper gets to serve, the write
  of line 190 reads the name \<^verbatim>\<open>ctypes\<close>, which is bound only inside
  \<^verbatim>\<open>initialize_mumble_link\<close>: the helper that start-up leaves serving handles \<^verbatim>\<open>oops\<close> and then
  \<^verbatim>\<open>{}\<close>, the update of \<^verbatim>\<open>{}\<close> raises \<^verbatim>\<open>NameError\<close>, and the region keeps its bytes instead of
  the record whose tick is 1.\<close>

theorem valid_message_not_written_on_Windows:
  "helper_init windows_world
     = Inr (\<lparr>clients = {}, link_name = Some ''MumbleLink'', mumble_memory = Unset\<rparr>, [])
   \<and> start_server windows_world
       \<lparr>clients = {}, link_name = Some ''MumbleLink'', mumble_memory = Unset\<rparr>
     = (Serving, windows_helper,
        [Log INFO ''Successfully connected to Mumble Link'',
         Log INFO ''Starting Mumble Link Helper server on '', Bind,
         Log INFO ''Server started. Waiting for connections from Foundry VTT...''])
   \<and> message_loop loads_empty ''Windows'' windows_helper [''oops'', ''{}'']
     = (windows_helper,
        [Log WARNING ''Invalid JSON received: '',
         LogExc ERROR ''Failed to update Mumble Link: '' NameError,
         Log DEBUG ''Updated Mumble Link with: ''])
   \<and> region windows_helper = replicate 2048 7
   \<and> map_sum id tick_of (encode_record (JObj [])) = Inr 1"
proof -
  have 1: "helper_init windows_world
     = Inr (\<lparr>clients = {}, link_name = Some ''MumbleLink'', mumble_memory = Unset\<rparr>, [])"
    by (simp add: helper_init_def get_link_name_def windows_world_def)
  have 2: "start_server windows_world
       \<lparr>clients = {}, link_name = Some ''MumbleLink'', mumble_memory = Unset\<rparr>
     = (Serving, windows_helper,
        [Log INFO ''Successfully connected to Mumble Link'',
         Log INFO ''Starting Mumble Link Helper server on '', Bind,
         Log INFO ''Server started. Waiting for connections from Foundry VTT...''])"
    by (simp add: start_server_def initialize_mumble_link_def initialize_body_def
        windows_world_def windows_helper_def)
  have 3: "message_loop loads_empty ''Windows'' windows_helper [''oops'', ''{}'']
     = (windows_helper,
        [Log WARNING ''Invalid JSON received: '',
         LogExc ERROR ''Failed to update Mumble Link: '' NameError,
         Log DEBUG ''Updated Mumble Link with: ''])"
    by (simp add: on_message_def loads_empty_def update_Windows_empty)
  have 4: "region windows_helper = replicate 2048 7"
    by (simp add: region_def windows_helper_def)
  obtain r where r: "encode_record (JObj []) = Inr r"
    using encode_empty by blast
  then have 5: "map_sum id tick_of (encode_record (JObj [])) = Inr 1"
    by (simp add: encode_record_tick)
  from 1 2 3 4 5 show ?thesis by (intro conjI)
qed

section \<open>Text fields\<close>









end
